theory Spec2Isabelle
  imports Complex_Main
begin

section \<open>Values shared by the whole program\<close>

text \<open>
  Go's \<open>int\<close> is modelled by \<open>int\<close>: the program never does arithmetic on an id, so no
  wrap-around can occur. A \<open>time.Time\<close> and a \<open>TIMESTAMP\<close> column are an instant counted
  as an \<open>int\<close>; the zero \<open>time.Time\<close> is \<open>0\<close>. A \<open>float64\<close> price is carried,
  never computed with, and is a \<open>rat\<close>.
\<close>

type_synonym time = int
type_synonym float64 = rat

datatype error =
    QueryError      \<comment> \<open>\<open>db.Query\<close> returned an error\<close>
  | ScanError       \<comment> \<open>\<open>rows.Scan\<close> returned an error\<close>
  | SyntaxError     \<comment> \<open>\<open>strconv.ErrSyntax\<close>\<close>
  | RangeError      \<comment> \<open>\<open>strconv.ErrRange\<close>\<close>
  | FileError       \<comment> \<open>\<open>os.Create\<close> or the CSV writer failed\<close>
  | ValidationFailure  \<comment> \<open>the error of \<open>validateOrderRequest\<close>\<close>
  | OtherError string

section \<open>The relational store\<close>

text \<open>
  The four tables of \<open>initDB\<close>. A column declared \<open>NOT NULL\<close> (or a primary key) holds a
  value; the two columns of \<open>products\<close> declared without \<open>NOT NULL\<close> hold \<open>None\<close> for
  SQL \<open>NULL\<close>.

  \<open>initDB\<close> runs \<open>CREATE TABLE IF NOT EXISTS\<close>, which leaves a table that exists as it
  is. Two queries of the program name a column that \<open>initDB\<close> does not declare:
  \<open>op.quantity\<close> (in \<open>getOrderDetails\<close>) and \<open>customer_email\<close> of \<open>orders\<close> (in
  \<open>SendPendingOrderReminders\<close>). A row therefore carries a value for each of them, which
  is read only when the table has the column; \<open>columns\<close> gives the columns of every
  table by name, and \<open>up\<close> says whether the store answers at all.
\<close>

record product_row =
  p_id :: int
  p_name :: string
  p_price :: float64
  p_description :: "string option"
  p_image_url :: "string option"

record customer_row =
  c_id :: int
  c_name :: string
  c_email :: string
  c_password :: string

record order_row =
  o_id :: int
  o_customer_id :: int
  o_date :: time
  o_status :: string
  o_customer_email :: "string option"

record order_product_row =
  op_order_id :: int
  op_product_id :: int
  op_quantity :: "int option"

record store =
  t_products :: "product_row list"
  t_customers :: "customer_row list"
  t_orders :: "order_row list"
  t_order_products :: "order_product_row list"
  columns :: "string \<Rightarrow> string list"
  up :: bool

text \<open>The columns that the \<open>CREATE TABLE\<close> statements of \<open>initDB\<close> declare.\<close>

definition initDB_columns :: "string \<Rightarrow> string list" where
  "initDB_columns t =
     (if t = ''products'' then [''id'', ''name'', ''price'', ''description'', ''image_url'']
      else if t = ''customers'' then [''id'', ''name'', ''email'', ''password'']
      else if t = ''orders'' then [''id'', ''customer_id'', ''date'', ''status'']
      else if t = ''order_products'' then [''order_id'', ''product_id'']
      else [])"

text \<open>
  \<open>initDB\<close> on a store that answers: a table that does not exist yet (no columns) is
  created with the declared columns, an existing one is kept. (When the store does not
  answer, \<open>initDB\<close> ends the process; no handler runs then.)
\<close>

definition initDB :: "store \<Rightarrow> store" where
  "initDB db =
     db\<lparr>columns := (\<lambda>t. if columns db t = [] then initDB_columns t else columns db t)\<rparr>"

definition empty_store :: store where
  "empty_store =
     \<lparr>t_products = [], t_customers = [], t_orders = [], t_order_products = [],
      columns = (\<lambda>t. []), up = True\<rparr>"

text \<open>
  \<open>db.Query\<close> fails when the store does not answer or when the statement names a column
  that its table does not have; \<open>refs\<close> lists the (table, column) pairs of a statement.
\<close>

definition query_ok :: "store \<Rightarrow> (string \<times> string) list \<Rightarrow> bool" where
  "query_ok db refs = (up db \<and> list_all (\<lambda>(t, c). c \<in> set (columns db t)) refs)"

section \<open>The aggregation reads\<close>

text \<open>
  The two structs of the API. \<open>getOrderDetails\<close> and \<open>GenerateCSVReport\<close> read and write
  a field \<open>Quantity\<close> of a \<open>Product\<close>, which the declaration of the struct does not
  list; the record has it, and the two grouping reads leave it at its zero value.

  The store returns the rows of a join in an order of its own; the rows below are in the
  order of a nested loop over the three tables. A successful query hands every
  row of its result to the loop over \<open>rows.Next()\<close>.
\<close>

record Product =
  ID_prod :: int
  Name :: string
  Price :: float64
  Description :: string
  ImageURL :: string
  Quantity :: int

record OrderWithProducts =
  ID :: int
  CustomerID :: int
  Date :: time
  Status :: string
  Products :: "Product list"

subsection \<open>getOrderDetails\<close>

text \<open>
  The join of the statement in \<open>getOrderDetails\<close>: one row per order, association row
  and product that satisfy both \<open>ON\<close> conditions and the \<open>WHERE\<close> clause.
\<close>

definition orderDetails_refs :: "(string \<times> string) list" where
  "orderDetails_refs =
     [(''orders'', ''id''), (''orders'', ''customer_id''), (''orders'', ''date''),
      (''orders'', ''status''), (''products'', ''id''), (''products'', ''name''),
      (''products'', ''price''), (''order_products'', ''quantity''),
      (''order_products'', ''order_id''), (''order_products'', ''product_id'')]"

definition orderDetails_rows ::
  "store \<Rightarrow> int \<Rightarrow> int \<Rightarrow> (order_row \<times> order_product_row \<times> product_row) list" where
  "orderDetails_rows db orderID customerID =
     [(od, lk, p).
        od \<leftarrow> t_orders db, lk \<leftarrow> t_order_products db, o_id od = op_order_id lk,
        p \<leftarrow> t_products db, op_product_id lk = p_id p,
        o_id od = orderID \<and> o_customer_id od = customerID]"

text \<open>
  The loop over \<open>rows.Next()\<close>: \<open>Scan\<close> writes the order columns into the record and the
  product columns into a fresh \<open>Product\<close>; scanning a \<open>NULL\<close> quantity into an \<open>int\<close>
  fails, and the function returns that error.
\<close>

fun orderDetails_loop ::
  "(order_row \<times> order_product_row \<times> product_row) list \<Rightarrow> OrderWithProducts \<Rightarrow>
   error + OrderWithProducts" where
  "orderDetails_loop [] order = Inr order"
| "orderDetails_loop ((od, lk, p) # rows) order =
     (case op_quantity lk of
        None \<Rightarrow> Inl ScanError
      | Some q \<Rightarrow>
          orderDetails_loop rows
            (order\<lparr>ID := o_id od, CustomerID := o_customer_id od, Date := o_date od,
                   Status := o_status od,
                   Products := Products order @
                     [\<lparr>ID_prod = p_id p, Name = p_name p, Price = p_price p,
                       Description = [], ImageURL = [], Quantity = q\<rparr>]\<rparr>))"

definition getOrderDetails :: "store \<Rightarrow> int \<Rightarrow> int \<Rightarrow> error + OrderWithProducts" where
  "getOrderDetails db orderID customerID =
     (if \<not> query_ok db orderDetails_refs then Inl QueryError
      else orderDetails_loop (orderDetails_rows db orderID customerID)
             \<lparr>ID = orderID, CustomerID = customerID, Date = 0, Status = [], Products = []\<rparr>)"

subsection \<open>The grouping reads\<close>

text \<open>
  \<open>Scan\<close> of the five product columns of the two grouping statements into an \<open>int\<close>, a
  \<open>float64\<close> and three \<open>string\<close>s: a \<open>NULL\<close> description or image URL cannot be stored
  in a \<open>string\<close>, and \<open>Scan\<close> fails. The \<open>Product\<close> literal of the loop leaves
  \<open>Quantity\<close> at its zero value.
\<close>

definition scanProduct :: "product_row \<Rightarrow> error + Product" where
  "scanProduct p =
     (case p_description p of
        None \<Rightarrow> Inl ScanError
      | Some d \<Rightarrow>
          (case p_image_url p of
             None \<Rightarrow> Inl ScanError
           | Some u \<Rightarrow>
               Inr \<lparr>ID_prod = p_id p, Name = p_name p, Price = p_price p,
                    Description = d, ImageURL = u, Quantity = 0\<rparr>))"

text \<open>
  The map \<open>orders\<close> of the loop holds pointers: appending to \<open>order.Products\<close> changes
  the record that the map holds under the key.
\<close>

fun customerOrders_loop ::
  "(order_row \<times> product_row) list \<Rightarrow> (int \<rightharpoonup> OrderWithProducts) \<Rightarrow>
   error + (int \<rightharpoonup> OrderWithProducts)" where
  "customerOrders_loop [] orders = Inr orders"
| "customerOrders_loop ((od, p) # rows) orders =
     (case scanProduct p of
        Inl e \<Rightarrow> Inl e
      | Inr product \<Rightarrow>
          (case orders (o_id od) of
             Some order \<Rightarrow>
               customerOrders_loop rows
                 (orders(o_id od \<mapsto> order\<lparr>Products := Products order @ [product]\<rparr>))
           | None \<Rightarrow>
               customerOrders_loop rows
                 (orders(o_id od \<mapsto>
                    \<lparr>ID = o_id od, CustomerID = 0, Date = o_date od, Status = o_status od,
                     Products = [product]\<rparr>))))"

fun allOrders_loop ::
  "(order_row \<times> product_row) list \<Rightarrow> (int \<rightharpoonup> OrderWithProducts) \<Rightarrow>
   error + (int \<rightharpoonup> OrderWithProducts)" where
  "allOrders_loop [] orders = Inr orders"
| "allOrders_loop ((od, p) # rows) orders =
     (case scanProduct p of
        Inl e \<Rightarrow> Inl e
      | Inr product \<Rightarrow>
          (case orders (o_id od) of
             Some order \<Rightarrow>
               allOrders_loop rows
                 (orders(o_id od \<mapsto> order\<lparr>Products := Products order @ [product]\<rparr>))
           | None \<Rightarrow>
               allOrders_loop rows
                 (orders(o_id od \<mapsto>
                    \<lparr>ID = o_id od, CustomerID = o_customer_id od, Date = o_date od,
                     Status = o_status od, Products = [product]\<rparr>))))"

text \<open>
  ``Convert map to slice'': Go ranges over a map in an order that the language leaves
  open. \<open>ks\<close> is the order in which the run visits the keys; a run visits every key of
  the map once (\<open>range_order\<close>).
\<close>

definition mapToSlice :: "int list \<Rightarrow> (int \<rightharpoonup> OrderWithProducts) \<Rightarrow> OrderWithProducts list" where
  "mapToSlice ks orders = List.map_filter orders ks"


text \<open>
  The statements of the two grouping reads name the same columns: the customer's
  statement has \<open>o.customer_id\<close> in its \<open>WHERE\<close> clause, the other selects it.
\<close>

definition grouping_refs :: "(string \<times> string) list" where
  "grouping_refs =
     [(''orders'', ''id''), (''orders'', ''date''), (''orders'', ''status''),
      (''products'', ''id''), (''products'', ''name''), (''products'', ''price''),
      (''products'', ''description''), (''products'', ''image_url''),
      (''order_products'', ''order_id''), (''order_products'', ''product_id''),
      (''orders'', ''customer_id'')]"

definition customerOrders_rows :: "store \<Rightarrow> int \<Rightarrow> (order_row \<times> product_row) list" where
  "customerOrders_rows db customerID =
     [(od, p).
        od \<leftarrow> t_orders db, lk \<leftarrow> t_order_products db, o_id od = op_order_id lk,
        p \<leftarrow> t_products db, op_product_id lk = p_id p,
        o_customer_id od = customerID]"

definition allOrders_rows :: "store \<Rightarrow> (order_row \<times> product_row) list" where
  "allOrders_rows db =
     [(od, p).
        od \<leftarrow> t_orders db, lk \<leftarrow> t_order_products db, o_id od = op_order_id lk,
        p \<leftarrow> t_products db, op_product_id lk = p_id p]"

definition getCustomerOrdersWithProducts ::
  "int list \<Rightarrow> store \<Rightarrow> int \<Rightarrow> error + OrderWithProducts list" where
  "getCustomerOrdersWithProducts ks db customerID =
     (if \<not> query_ok db grouping_refs then Inl QueryError
      else (case customerOrders_loop (customerOrders_rows db customerID) Map.empty of
              Inl e \<Rightarrow> Inl e
            | Inr orders \<Rightarrow> Inr (mapToSlice ks orders)))"

definition getAllOrdersWithProducts :: "int list \<Rightarrow> store \<Rightarrow> error + OrderWithProducts list" where
  "getAllOrdersWithProducts ks db =
     (if \<not> query_ok db grouping_refs then Inl QueryError
      else (case allOrders_loop (allOrders_rows db) Map.empty of
              Inl e \<Rightarrow> Inl e
            | Inr orders \<Rightarrow> Inr (mapToSlice ks orders)))"

section \<open>Requests, responses and the state around a handler\<close>

text \<open>
  A request as far as the handlers read it: \<open>Header\<close> gives the first value of a header
  that is present, \<open>Body\<close> is what \<open>ioutil.ReadAll(r.Body)\<close> returns.
\<close>

record Request =
  Header :: "string \<rightharpoonup> string"
  Body :: "error + string"
  RemoteAddr :: string

definition Header_Get :: "Request \<Rightarrow> string \<Rightarrow> string" where
  "Header_Get r k = (case Header r k of None \<Rightarrow> [] | Some v \<Rightarrow> v)"

text \<open>
  An \<open>http.ResponseWriter\<close>: the status is fixed by the first \<open>WriteHeader\<close>, or set to
  200 by the first \<open>Write\<close> when none came before.
\<close>

record ResponseWriter =
  rw_status :: "nat option"
  rw_header :: "(string \<times> string) list"
  rw_body :: string

definition WriteHeader :: "nat \<Rightarrow> ResponseWriter \<Rightarrow> ResponseWriter" where
  "WriteHeader code w = (case rw_status w of None \<Rightarrow> w\<lparr>rw_status := Some code\<rparr> | Some c \<Rightarrow> w)"

definition Write :: "string \<Rightarrow> ResponseWriter \<Rightarrow> ResponseWriter" where
  "Write b w =
     (case rw_status w of
        None \<Rightarrow> w\<lparr>rw_status := Some 200, rw_body := rw_body w @ b\<rparr>
      | Some c \<Rightarrow> w\<lparr>rw_body := rw_body w @ b\<rparr>)"

definition Header_Set :: "string \<Rightarrow> string \<Rightarrow> ResponseWriter \<Rightarrow> ResponseWriter" where
  "Header_Set k v w = w\<lparr>rw_header := (k, v) # filter (\<lambda>kv. fst kv \<noteq> k) (rw_header w)\<rparr>"

definition StatusOK :: nat where "StatusOK = 200"
definition StatusCreated :: nat where "StatusCreated = 201"
definition StatusBadRequest :: nat where "StatusBadRequest = 400"
definition StatusUnauthorized :: nat where "StatusUnauthorized = 401"
definition StatusTooManyRequests :: nat where "StatusTooManyRequests = 429"
definition StatusInternalServerError :: nat where "StatusInternalServerError = 500"

text \<open>
  What a handler or the background task can change besides the response: the store, the
  log, the file \<open>order_report.csv\<close> (\<open>None\<close> while it does not exist) and the list of
  calls made to the mail transport. \<open>w_create_ok\<close> and \<open>w_write_ok\<close> say whether
  \<open>os.Create\<close> and the CSV writer succeed.
\<close>

datatype log_entry =
    Println string error
  | Printf_send string int error  \<comment> \<open>``Error sending email to \%s for order \%d: \%v''\<close>

datatype cell = Text string | Itoa int | FormatTime time | FormatFloat float64

record world =
  w_db :: store
  w_logs :: "log_entry list"
  w_report :: "cell list list option"
  w_create_ok :: bool
  w_write_ok :: bool
  w_dispatched :: "(string \<times> int) list"

definition log_Println :: "string \<Rightarrow> error \<Rightarrow> world \<Rightarrow> world" where
  "log_Println msg e s = s\<lparr>w_logs := w_logs s @ [Println msg e]\<rparr>"

type_synonym handler = "Request \<Rightarrow> world \<times> ResponseWriter \<Rightarrow> world \<times> ResponseWriter"

section \<open>Access control\<close>

definition customerToken :: string where "customerToken = ''customer_token''"
definition adminToken :: string where "adminToken = ''admin_token''"

definition AuthMiddleware :: "handler \<Rightarrow> string \<Rightarrow> handler" where
  "AuthMiddleware next role r sw =
     (let token = Header_Get r ''Authorization'' in
      if role = ''customer'' then
        (if token \<noteq> customerToken
         then (fst sw, Write ''Unauthorized'' (WriteHeader StatusUnauthorized (snd sw)))
         else next r sw)
      else if role = ''admin'' then
        (if token \<noteq> adminToken
         then (fst sw, Write ''Unauthorized'' (WriteHeader StatusUnauthorized (snd sw)))
         else next r sw)
      else (fst sw, Write ''Internal Server Error''
                      (WriteHeader StatusInternalServerError (snd sw))))"

section \<open>Placing an order\<close>

text \<open>
  Modelled from the spec: the type \<open>OrderRequest\<close> and the function
  \<open>validateOrderRequest\<close>, which \<open>PlaceOrderHandler\<close> uses and the sources do not hold.
  The request is ``a customer id and a list of (product id, quantity) pairs''; validation
  rejects ``if the customer id is missing/non-positive, or the product list is empty, or
  any quantity is non-positive''. A customer id missing from the JSON body is the zero
  value of the field after decoding.
\<close>

record ProductItem =
  ProductID_item :: int
  Quantity_item :: int

record OrderRequest =
  CustomerID_req :: int
  Products_req :: "ProductItem list"

definition validateOrderRequest :: "OrderRequest \<Rightarrow> error option" where
  "validateOrderRequest req =
     (if CustomerID_req req \<le> 0 then Some ValidationFailure
      else if Products_req req = [] then Some ValidationFailure
      else if list_ex (\<lambda>i. Quantity_item i \<le> 0) (Products_req req) then Some ValidationFailure
      else None)"

subsection \<open>The CSV report\<close>

definition csv_header :: "cell list" where
  "csv_header =
     [Text ''Order ID'', Text ''Customer ID'', Text ''Date'', Text ''Status'',
      Text ''Product ID'', Text ''Product Name'', Text ''Price'', Text ''Quantity'']"

definition csv_row :: "OrderWithProducts \<Rightarrow> Product \<Rightarrow> cell list" where
  "csv_row order product =
     [Itoa (ID order), Itoa (CustomerID order), FormatTime (Date order), Text (Status order),
      Itoa (ID_prod product), Text (Name product), FormatFloat (Price product),
      Itoa (Quantity product)]"

definition GenerateCSVReport :: "int \<Rightarrow> int \<Rightarrow> world \<Rightarrow> error option \<times> world" where
  "GenerateCSVReport orderID customerID s =
     (case getOrderDetails (w_db s) orderID customerID of
        Inl e \<Rightarrow> (Some e, s)
      | Inr order \<Rightarrow>
          if \<not> w_create_ok s then (Some FileError, s)
          else if \<not> w_write_ok s then (Some FileError, s\<lparr>w_report := Some []\<rparr>)
          else (None, s\<lparr>w_report := Some (csv_header # map (csv_row order) (Products order))\<rparr>))"

subsection \<open>The handler\<close>

text \<open>
  \<open>PlaceOrderHandler\<close> calls \<open>json.Unmarshal\<close> and two functions that the sources do not
  hold, \<open>createOrder\<close> and \<open>associateProducts\<close>; they are parameters here, each free to
  fail and to change the state. \<open>errText\<close> is \<open>err.Error()\<close>.
\<close>

definition PlaceOrderHandler ::
  "(error \<Rightarrow> string) \<Rightarrow> (string \<Rightarrow> error + OrderRequest) \<Rightarrow>
   (OrderRequest \<Rightarrow> world \<Rightarrow> (error + int) \<times> world) \<Rightarrow>
   (int \<Rightarrow> ProductItem list \<Rightarrow> world \<Rightarrow> error option \<times> world) \<Rightarrow> handler" where
  "PlaceOrderHandler errText unmarshal createOrder associateProducts r sw =
     (let s = fst sw; w = snd sw in
      case Body r of
        Inl e \<Rightarrow>
          (log_Println ''Error reading request body:'' e s,
           Write ''Bad Request'' (WriteHeader StatusBadRequest w))
      | Inr body \<Rightarrow>
      (case unmarshal body of
        Inl e \<Rightarrow>
          (log_Println ''Error decoding JSON:'' e s,
           Write ''Invalid JSON format'' (WriteHeader StatusBadRequest w))
      | Inr orderRequest \<Rightarrow>
      (case validateOrderRequest orderRequest of
        Some e \<Rightarrow>
          (log_Println ''Validation error:'' e s,
           Write (''Validation error: '' @ errText e) (WriteHeader StatusBadRequest w))
      | None \<Rightarrow>
      (case createOrder orderRequest s of
        (Inl e, s1) \<Rightarrow>
          (log_Println ''Error creating order:'' e s1,
           Write ''Internal Server Error'' (WriteHeader StatusInternalServerError w))
      | (Inr orderID, s1) \<Rightarrow>
      (case associateProducts orderID (Products_req orderRequest) s1 of
        (Some e, s2) \<Rightarrow>
          (log_Println ''Error associating products with order:'' e s2,
           Write ''Internal Server Error'' (WriteHeader StatusInternalServerError w))
      | (None, s2) \<Rightarrow>
      (case GenerateCSVReport orderID (CustomerID_req orderRequest) s2 of
        (Some e, s3) \<Rightarrow>
          (log_Println ''Error generating CSV report:'' e s3,
           Write ''Order placed successfully'' (WriteHeader StatusCreated w))
      | (None, s3) \<Rightarrow>
          (s3, Write ''Order placed successfully'' (WriteHeader StatusCreated w))))))))"

section \<open>A customer's orders\<close>

text \<open>
  \<open>strconv.Atoi\<close>: an optional sign, then at least one decimal digit and nothing else,
  with a value that fits an \<open>int\<close> of 64 bits.
\<close>

definition digit :: "char \<Rightarrow> nat option" where
  "digit c = (let n = (of_char c :: nat) in if 48 \<le> n \<and> n \<le> 57 then Some (n - 48) else None)"

fun digits_value :: "string \<Rightarrow> nat \<Rightarrow> nat option" where
  "digits_value [] acc = Some acc"
| "digits_value (c # cs) acc =
     (case digit c of None \<Rightarrow> None | Some d \<Rightarrow> digits_value cs (acc * 10 + d))"

definition strip_sign :: "string \<Rightarrow> bool \<times> string" where
  "strip_sign s =
     (case s of
        [] \<Rightarrow> (False, s)
      | c # cs \<Rightarrow>
          if c = CHR ''-'' then (True, cs) else if c = CHR ''+'' then (False, cs) else (False, s))"

definition Atoi :: "string \<Rightarrow> error + int" where
  "Atoi s =
     (case strip_sign s of
        (neg, ds) \<Rightarrow>
          if ds = [] then Inl SyntaxError
          else (case digits_value ds 0 of
                  None \<Rightarrow> Inl SyntaxError
                | Some n \<Rightarrow>
                    (let v = (if neg then - int n else int n) in
                     if v < - (2 ^ 63) \<or> 2 ^ 63 - 1 < v then Inl RangeError else Inr v)))"

definition getCustomerID :: "Request \<Rightarrow> int" where
  "getCustomerID r =
     (case Atoi (Header_Get r ''X-Customer-ID'') of Inl e \<Rightarrow> 0 | Inr customerID \<Rightarrow> customerID)"

text \<open>
  \<open>marshal\<close> is \<open>json.Marshal\<close> on the slice of orders, \<open>ks\<close> the order in which the run
  ranges over the map of \<open>getCustomerOrdersWithProducts\<close>.
\<close>

definition CustomerOrdersHandler ::
  "(OrderWithProducts list \<Rightarrow> error + string) \<Rightarrow> int list \<Rightarrow> handler" where
  "CustomerOrdersHandler marshal ks r sw =
     (let s = fst sw; w = snd sw; customerID = getCustomerID r in
      case getCustomerOrdersWithProducts ks (w_db s) customerID of
        Inl e \<Rightarrow>
          (log_Println ''Error retrieving customer orders:'' e s,
           Write ''Internal Server Error'' (WriteHeader StatusInternalServerError w))
      | Inr orders \<Rightarrow>
      (case marshal orders of
        Inl e \<Rightarrow>
          (log_Println ''Error encoding customer orders to JSON:'' e s,
           Write ''Internal Server Error'' (WriteHeader StatusInternalServerError w))
      | Inr response \<Rightarrow>
          (s, Write response
                (WriteHeader StatusOK (Header_Set ''Content-Type'' ''application/json'' w)))))"

definition AdminOrdersHandler ::
  "(OrderWithProducts list \<Rightarrow> error + string) \<Rightarrow> int list \<Rightarrow> handler" where
  "AdminOrdersHandler marshal ks r sw =
     (let s = fst sw; w = snd sw in
      case getAllOrdersWithProducts ks (w_db s) of
        Inl e \<Rightarrow>
          (log_Println ''Error retrieving orders:'' e s,
           Write ''Internal Server Error'' (WriteHeader StatusInternalServerError w))
      | Inr orders \<Rightarrow>
      (case marshal orders of
        Inl e \<Rightarrow>
          (log_Println ''Error encoding orders to JSON:'' e s,
           Write ''Internal Server Error'' (WriteHeader StatusInternalServerError w))
      | Inr response \<Rightarrow>
          (s, Write response
                (WriteHeader StatusOK (Header_Set ''Content-Type'' ''application/json'' w)))))"

section \<open>The rate limiter\<close>

text \<open>
  \<open>NewRateLimiter\<close> returns a \<open>*rate.Limiter\<close> of the package \<open>time/rate\<close>, which the
  program imports: a token bucket that holds at most \<open>burst\<close> tokens, starts full and
  gains \<open>limit\<close> tokens per second. A \<open>time.Duration\<close> and an instant are counted in
  nanoseconds; tokens are exact fractions here, where the package computes in
  \<open>float64\<close>. \<open>Allow\<close> takes one token if the bucket holds one.

  The limiter is one bucket. The program passes a key to \<open>Allow\<close>; nothing in a
  \<open>rate.Limiter\<close> depends on a key, so the key selects nothing.
\<close>

type_synonym Duration = int

definition Second :: Duration where "Second = 1000000000"
definition Minute :: Duration where "Minute = 60 * Second"
definition Hour :: Duration where "Hour = 60 * Minute"

record Limiter =
  limit :: rat
  burst :: int
  tokens :: rat
  last_t :: time

definition NewLimiter :: "rat \<Rightarrow> int \<Rightarrow> Limiter" where
  "NewLimiter r b = \<lparr>limit = r, burst = b, tokens = of_int b, last_t = 0\<rparr>"

definition tokensFromDuration :: "rat \<Rightarrow> Duration \<Rightarrow> rat" where
  "tokensFromDuration lmt d = (if lmt \<le> 0 then 0 else (of_int d / of_int Second) * lmt)"

definition advance :: "Limiter \<Rightarrow> time \<Rightarrow> rat" where
  "advance lmt t =
     (let l = (if t < last_t lmt then t else last_t lmt);
          elapsed = t - l;
          delta = tokensFromDuration (limit lmt) elapsed;
          tk = tokens lmt + delta
      in if of_int (burst lmt) < tk then of_int (burst lmt) else tk)"

text \<open>
  \<open>Allow()\<close> is \<open>reserveN(now, 1, 0)\<close>: the token is granted when the bucket can hold one
  and the wait for it, cut to whole nanoseconds, is zero.
\<close>

definition waitDuration :: "rat \<Rightarrow> rat \<Rightarrow> Duration option" where
  "waitDuration lmt tk =
     (if 0 \<le> tk then Some 0
      else if lmt \<le> 0 then None
      else Some (\<lfloor>(- tk) / lmt * of_int Second\<rfloor>))"

definition Allow :: "Limiter \<Rightarrow> string \<Rightarrow> time \<Rightarrow> bool \<times> Limiter" where
  "Allow lmt key t =
     (if limit lmt = 0 then
        (if 1 \<le> burst lmt then (True, lmt\<lparr>burst := burst lmt - 1\<rparr>) else (False, lmt))
      else
        (let tk = advance lmt t - 1 in
         if 1 \<le> burst lmt \<and> (case waitDuration (limit lmt) tk of None \<Rightarrow> False | Some d \<Rightarrow> d \<le> 0)
         then (True, lmt\<lparr>tokens := tk, last_t := t\<rparr>)
         else (False, lmt)))"

text \<open>\<open>int(window.Seconds())\<close>: the whole seconds of the window, cut towards zero.\<close>

definition Seconds_int :: "Duration \<Rightarrow> int" where
  "Seconds_int d = (if 0 \<le> d then d div Second else - ((- d) div Second))"

definition NewRateLimiter :: "int \<Rightarrow> Duration \<Rightarrow> Limiter" where
  "NewRateLimiter lmt window = NewLimiter (of_int lmt) (Seconds_int window)"

definition rateLimiter :: Limiter where
  "rateLimiter = NewRateLimiter 100 Minute"

definition taskLimiter :: Limiter where
  "taskLimiter = NewRateLimiter 1 (24 * Hour)"

text \<open>\<open>n\<close> calls of \<open>Allow\<close> with one key at one instant, and what each returned.\<close>

fun allow_times :: "nat \<Rightarrow> Limiter \<Rightarrow> string \<Rightarrow> time \<Rightarrow> bool list \<times> Limiter" where
  "allow_times 0 lmt key t = ([], lmt)"
| "allow_times (Suc n) lmt key t =
     (case Allow lmt key t of
        (b, lmt') \<Rightarrow> (case allow_times n lmt' key t of (bs, lmt'') \<Rightarrow> (b # bs, lmt'')))"

section \<open>Reminders for pending orders\<close>

text \<open>
  \<open>sendMail to orderID\<close> is what \<open>smtp.SendMail\<close> returns for the message that
  \<open>SendEmailReminder\<close> builds from its two arguments; \<open>w_dispatched\<close> records every
  call of the transport.
\<close>

definition SendEmailReminder ::
  "(string \<Rightarrow> int \<Rightarrow> error option) \<Rightarrow> string \<Rightarrow> int \<Rightarrow> world \<Rightarrow> world" where
  "SendEmailReminder sendMail to orderID s =
     (let s' = s\<lparr>w_dispatched := w_dispatched s @ [(to, orderID)]\<rparr> in
      case sendMail to orderID of
        None \<Rightarrow> s'
      | Some e \<Rightarrow> s'\<lparr>w_logs := w_logs s' @ [Printf_send to orderID e]\<rparr>)"

definition pendingOrders_refs :: "(string \<times> string) list" where
  "pendingOrders_refs =
     [(''orders'', ''id''), (''orders'', ''customer_email''), (''orders'', ''status'')]"

definition pendingOrders_rows :: "store \<Rightarrow> order_row list" where
  "pendingOrders_rows db = filter (\<lambda>od. o_status od = ''Pending'') (t_orders db)"

text \<open>
  The loop of \<open>SendPendingOrderReminders\<close>: a row whose \<open>customer_email\<close> is \<open>NULL\<close>
  does not scan into a \<open>string\<close>; the error is logged and the loop continues.
\<close>

fun pendingOrders_loop ::
  "(string \<Rightarrow> int \<Rightarrow> error option) \<Rightarrow> order_row list \<Rightarrow> world \<Rightarrow> world" where
  "pendingOrders_loop sendMail [] s = s"
| "pendingOrders_loop sendMail (od # rows) s =
     (case o_customer_email od of
        None \<Rightarrow> pendingOrders_loop sendMail rows (log_Println ''Error scanning row:'' ScanError s)
      | Some customerEmail \<Rightarrow>
          pendingOrders_loop sendMail rows (SendEmailReminder sendMail customerEmail (o_id od) s))"

definition SendPendingOrderReminders ::
  "(string \<Rightarrow> int \<Rightarrow> error option) \<Rightarrow> world \<Rightarrow> world" where
  "SendPendingOrderReminders sendMail s =
     (if \<not> query_ok (w_db s) pendingOrders_refs
      then log_Println ''Error querying pending orders:'' QueryError s
      else pendingOrders_loop sendMail (pendingOrders_rows (w_db s)) s)"

text \<open>
  One turn of the loop of \<open>BackgroundTask\<close> at the instant \<open>now\<close>: the limiter after the
  call, the state after the sweep, and how long the task sleeps.
\<close>

datatype sleep = UntilNextMidnight | OneHour

definition BackgroundTask_cycle ::
  "(string \<Rightarrow> int \<Rightarrow> error option) \<Rightarrow> time \<Rightarrow> Limiter \<times> world \<Rightarrow> sleep \<times> Limiter \<times> world" where
  "BackgroundTask_cycle sendMail now ls =
     (case Allow (fst ls) ''background-task'' now of
        (True, lmt') \<Rightarrow> (UntilNextMidnight, lmt', SendPendingOrderReminders sendMail (snd ls))
      | (False, lmt') \<Rightarrow> (OneHour, lmt', snd ls))"

section \<open>Notions used to state the properties\<close>

text \<open>
  A product row scans when neither nullable column is \<open>NULL\<close>; \<open>product_entry\<close> is
  then the \<open>Product\<close> that the grouping loops build from it.
\<close>

definition scans :: "product_row \<Rightarrow> bool" where
  "scans p = (p_description p \<noteq> None \<and> p_image_url p \<noteq> None)"

definition product_entry :: "product_row \<Rightarrow> Product" where
  "product_entry p =
     \<lparr>ID_prod = p_id p, Name = p_name p, Price = p_price p,
      Description = (case p_description p of None \<Rightarrow> [] | Some d \<Rightarrow> d),
      ImageURL = (case p_image_url p of None \<Rightarrow> [] | Some u \<Rightarrow> u), Quantity = 0\<rparr>"

text \<open>The rows of a result that bear the order id \<open>k\<close>, in their order of arrival.\<close>

definition rows_of :: "int \<Rightarrow> (order_row \<times> product_row) list \<Rightarrow> (order_row \<times> product_row) list" where
  "rows_of k rows = filter (\<lambda>r. o_id (fst r) = k) rows"


text \<open>The maps that the two loops end with, in closed form.\<close>

definition allOrders_grouped :: "(order_row \<times> product_row) list \<Rightarrow> (int \<rightharpoonup> OrderWithProducts)" where
  "allOrders_grouped rows k =
     (case rows_of k rows of
        [] \<Rightarrow> None
      | r # rs \<Rightarrow>
          Some \<lparr>ID = k, CustomerID = o_customer_id (fst r), Date = o_date (fst r),
                Status = o_status (fst r),
                Products = map (\<lambda>r. product_entry (snd r)) (rows_of k rows)\<rparr>)"


text \<open>The store without the orders that bear the id \<open>oid\<close>.\<close>

definition without_order :: "int \<Rightarrow> store \<Rightarrow> store" where
  "without_order oid db = db\<lparr>t_orders := filter (\<lambda>od. o_id od \<noteq> oid) (t_orders db)\<rparr>"

text \<open>
  \<open>product\<close> is a line item of an order with the id \<open>orderID\<close> that \<open>customerID\<close>
  owns: the store has such an order, an association row of that order and the product
  of that row, and \<open>product\<close> carries the row's quantity and the product's attributes.
\<close>

definition line_item_of :: "store \<Rightarrow> int \<Rightarrow> int \<Rightarrow> Product \<Rightarrow> bool" where
  "line_item_of db orderID customerID product =
     (\<exists>od \<in> set (t_orders db). \<exists>lk \<in> set (t_order_products db). \<exists>p \<in> set (t_products db).
        o_id od = orderID \<and> o_customer_id od = customerID \<and>
        op_order_id lk = orderID \<and> op_product_id lk = p_id p \<and>
        op_quantity lk = Some (Quantity product) \<and>
        ID_prod product = p_id p \<and> Name product = p_name p \<and> Price product = p_price p)"

text \<open>
  The empty result of \<open>getOrderDetails\<close>: the record as it is before the first row,
  made of the two arguments and zero values.
\<close>

definition placeholder :: "int \<Rightarrow> int \<Rightarrow> OrderWithProducts" where
  "placeholder orderID customerID =
     \<lparr>ID = orderID, CustomerID = customerID, Date = 0, Status = [], Products = []\<rparr>"

text \<open>A decimal integer: an optional sign, then one or more decimal digits.\<close>

definition decimal_integer :: "string \<Rightarrow> bool" where
  "decimal_integer s =
     (case strip_sign s of (neg, ds) \<Rightarrow> ds \<noteq> [] \<and> list_all (\<lambda>c. digit c \<noteq> None) ds)"

definition with_header :: "string \<Rightarrow> string \<Rightarrow> Request \<Rightarrow> Request" where
  "with_header k v r = r\<lparr>Header := (Header r)(k \<mapsto> v)\<rparr>"

section \<open>A store and a result to compute with\<close>

text \<open>
  Customer 7 owns order 1 (a pen twice, ink once) and order 3, which has no association
  row; customer 8 owns order 2. \<open>ex_store\<close> has tables that existed before \<open>initDB\<close>
  and have the two further columns; \<open>ex_store_initDB\<close> has the tables as \<open>initDB\<close>
  creates them in an empty database.
\<close>

definition ex_pen :: product_row where
  "ex_pen = \<lparr>p_id = 3, p_name = ''pen'', p_price = 2, p_description = Some ''blue'',
             p_image_url = Some ''pen.png''\<rparr>"

definition ex_ink :: product_row where
  "ex_ink = \<lparr>p_id = 5, p_name = ''ink'', p_price = 7, p_description = Some ''black'',
             p_image_url = Some ''ink.png''\<rparr>"

definition ex_order1 :: order_row where
  "ex_order1 = \<lparr>o_id = 1, o_customer_id = 7, o_date = 100, o_status = ''Pending'',
                o_customer_email = Some ''ann@example.org''\<rparr>"

definition ex_order2 :: order_row where
  "ex_order2 = \<lparr>o_id = 2, o_customer_id = 8, o_date = 200, o_status = ''Shipped'',
                o_customer_email = Some ''bob@example.org''\<rparr>"

definition ex_order3 :: order_row where
  "ex_order3 = \<lparr>o_id = 3, o_customer_id = 7, o_date = 300, o_status = ''Pending'',
                o_customer_email = None\<rparr>"

definition ex_columns :: "string \<Rightarrow> string list" where
  "ex_columns t =
     (if t = ''orders'' then initDB_columns t @ [''customer_email'']
      else if t = ''order_products'' then initDB_columns t @ [''quantity'']
      else initDB_columns t)"

definition ex_store :: store where
  "ex_store =
     \<lparr>t_products = [ex_pen, ex_ink],
      t_customers =
        [\<lparr>c_id = 7, c_name = ''Ann'', c_email = ''ann@example.org'', c_password = ''x''\<rparr>,
         \<lparr>c_id = 8, c_name = ''Bob'', c_email = ''bob@example.org'', c_password = ''y''\<rparr>],
      t_orders = [ex_order1, ex_order2, ex_order3],
      t_order_products =
        [\<lparr>op_order_id = 1, op_product_id = 3, op_quantity = Some 2\<rparr>,
         \<lparr>op_order_id = 2, op_product_id = 3, op_quantity = Some 4\<rparr>,
         \<lparr>op_order_id = 1, op_product_id = 5, op_quantity = Some 1\<rparr>],
      columns = ex_columns, up = True\<rparr>"

definition ex_store_initDB :: store where
  "ex_store_initDB =
     (initDB empty_store)
       \<lparr>t_products := [ex_pen, ex_ink],
        t_orders := map (\<lambda>od. od\<lparr>o_customer_email := None\<rparr>) [ex_order1, ex_order2, ex_order3],
        t_order_products :=
          [\<lparr>op_order_id = 1, op_product_id = 3, op_quantity = None\<rparr>,
           \<lparr>op_order_id = 2, op_product_id = 3, op_quantity = None\<rparr>,
           \<lparr>op_order_id = 1, op_product_id = 5, op_quantity = None\<rparr>]\<rparr>"


definition fresh_writer :: ResponseWriter where
  "fresh_writer = \<lparr>rw_status = None, rw_header = [], rw_body = []\<rparr>"

definition ex_world :: world where
  "ex_world =
     \<lparr>w_db = ex_store, w_logs = [], w_report = None, w_create_ok = True, w_write_ok = True,
      w_dispatched = []\<rparr>"

definition ex_request :: Request where
  "ex_request = \<lparr>Header = Map.empty, Body = Inr ''{}'', RemoteAddr = ''10.0.0.1:5000''\<rparr>"

text \<open>A wrapped handler, a decoder, the two missing helpers and an encoder to run with.\<close>

definition ex_next :: handler where
  "ex_next r sw = (fst sw, Write ''ok'' (WriteHeader StatusOK (snd sw)))"

definition ex_unmarshal :: "string \<Rightarrow> error + OrderRequest" where
  "ex_unmarshal b =
     (if b = ''{}'' then Inr \<lparr>CustomerID_req = 0, Products_req = []\<rparr>
      else Inl (OtherError ''unexpected end of JSON input''))"

definition ex_createOrder :: "OrderRequest \<Rightarrow> world \<Rightarrow> (error + int) \<times> world" where
  "ex_createOrder req s =
     (Inr 4,
      s\<lparr>w_db := (w_db s)\<lparr>t_orders := t_orders (w_db s) @
         [\<lparr>o_id = 4, o_customer_id = CustomerID_req req, o_date = 400, o_status = ''Pending'',
           o_customer_email = None\<rparr>]\<rparr>\<rparr>)"

definition ex_associateProducts ::
  "int \<Rightarrow> ProductItem list \<Rightarrow> world \<Rightarrow> error option \<times> world" where
  "ex_associateProducts orderID items s =
     (None,
      s\<lparr>w_db := (w_db s)\<lparr>t_order_products := t_order_products (w_db s) @
         map (\<lambda>i. \<lparr>op_order_id = orderID, op_product_id = ProductID_item i,
                    op_quantity = Some (Quantity_item i)\<rparr>) items\<rparr>\<rparr>)"

definition ex_marshal :: "OrderWithProducts list \<Rightarrow> error + string" where
  "ex_marshal orders = (if orders = [] then Inr ''null'' else Inr ''[...]'')"

section \<open>The grouping fold\<close>

lemma scanProduct_scans: "scans p \<Longrightarrow> scanProduct p = Inr (product_entry p)"
  by (auto simp: scans_def scanProduct_def product_entry_def)

lemma scanProduct_fails: "\<not> scans p \<Longrightarrow> scanProduct p = Inl ScanError"
  by (auto simp: scans_def scanProduct_def split: option.splits)

lemma allOrders_loop_snoc:
  "allOrders_loop (rows @ [r]) m =
     (case allOrders_loop rows m of Inl e \<Rightarrow> Inl e | Inr m' \<Rightarrow> allOrders_loop [r] m')"
proof (induction rows arbitrary: m)
  case Nil
  show ?case by (simp split: sum.splits)
next
  case (Cons a rows)
  obtain od p where a: "a = (od, p)" by (cases a)
  show ?case
    by (cases "scanProduct p"; cases "m (o_id od)") (simp_all add: a Cons.IH fun_upd_def)
qed


lemma allOrders_grouped_snoc:
  "allOrders_grouped (rows @ [(od, p)]) k =
     (if k = o_id od then
        (case allOrders_grouped rows k of
           Some order \<Rightarrow> Some (order\<lparr>Products := Products order @ [product_entry p]\<rparr>)
         | None \<Rightarrow> Some \<lparr>ID = o_id od, CustomerID = o_customer_id od, Date = o_date od,
                     Status = o_status od, Products = [product_entry p]\<rparr>)
      else allOrders_grouped rows k)"
  by (auto simp: allOrders_grouped_def rows_of_def split: list.splits)


lemma allOrders_loop_grouped:
  "list_all (\<lambda>r. scans (snd r)) rows \<Longrightarrow>
   allOrders_loop rows Map.empty = Inr (allOrders_grouped rows)"
proof (induction rows rule: rev_induct)
  case Nil
  show ?case by (simp add: allOrders_grouped_def rows_of_def fun_eq_iff)
next
  case (snoc r rows)
  obtain od p where r: "r = (od, p)" by (cases r)
  from snoc.prems have x: "scanProduct p = Inr (product_entry p)"
    by (simp add: r scanProduct_scans)
  from snoc have IH: "allOrders_loop rows Map.empty = Inr (allOrders_grouped rows)" by simp
  have "allOrders_loop [r] (allOrders_grouped rows) = Inr (allOrders_grouped (rows @ [r]))"
    by (cases "allOrders_grouped rows (o_id od)")
       (simp_all add: r x allOrders_grouped_snoc fun_eq_iff)
  then show ?case by (simp add: allOrders_loop_snoc IH)
qed








section \<open>The customer id of a customer's orders\<close>

lemma customerOrders_loop_CustomerID:
  "customerOrders_loop rows m = Inr m' \<Longrightarrow> \<forall>k v. m k = Some v \<longrightarrow> CustomerID v = 0 \<Longrightarrow>
   \<forall>k v. m' k = Some v \<longrightarrow> CustomerID v = 0"
proof (induction rows arbitrary: m)
  case Nil
  then show ?case by simp
next
  case (Cons a rows)
  obtain od p where a: "a = (od, p)" by (cases a)
  from Cons.prems(1) obtain x where x: "scanProduct p = Inr x"
    by (cases "scanProduct p") (simp_all add: a)
  show ?case
  proof (cases "m (o_id od)")
    case None
    let ?m = "m(o_id od \<mapsto> \<lparr>ID = o_id od, CustomerID = 0, Date = o_date od,
          Status = o_status od, Products = [x]\<rparr>)"
    from None Cons.prems(1) have 1: "customerOrders_loop rows ?m = Inr m'"
      by (simp add: a x)
    from Cons.prems(2) have 2: "\<forall>k v. ?m k = Some v \<longrightarrow> CustomerID v = 0"
      by auto
    from Cons.IH[OF 1 2] show ?thesis .
  next
    case (Some order)
    let ?m = "m(o_id od \<mapsto> order\<lparr>Products := Products order @ [x]\<rparr>)"
    from Some Cons.prems(1) have 1: "customerOrders_loop rows ?m = Inr m'"
      by (simp add: a x)
    from Cons.prems(2) Some have 2: "\<forall>k v. ?m k = Some v \<longrightarrow> CustomerID v = 0"
      by auto
    from Cons.IH[OF 1 2] show ?thesis .
  qed
qed

lemma mapToSlice_ran: "v \<in> set (mapToSlice ks m) \<Longrightarrow> \<exists>k. m k = Some v"
  by (auto simp: mapToSlice_def List.map_filter_def)

text \<open>
  C10. Every record that \<open>getCustomerOrdersWithProducts\<close> returns has the customer id 0,
  whatever the store holds and whichever customer asks: the loop never sets the field.
\<close>

theorem C10_customer_id_zero:
  assumes "getCustomerOrdersWithProducts ks db customerID = Inr result"
  shows "\<forall>order \<in> set result. CustomerID order = 0"
proof
  fix order assume o: "order \<in> set result"
  from assms obtain m where
    m: "customerOrders_loop (customerOrders_rows db customerID) Map.empty = Inr m"
    and r: "result = mapToSlice ks m"
    by (auto simp: getCustomerOrdersWithProducts_def split: if_splits sum.splits)
  from o r obtain k where "m k = Some order" using mapToSlice_ran by blast
  with customerOrders_loop_CustomerID[OF m] show "CustomerID order = 0" by simp
qed


theorem C10_customer_id_zero_witness:
  "getCustomerOrdersWithProducts [1] ex_store 7 = Inr [\<lparr>ID = 1, CustomerID = 0, Date = 100, Status = ''Pending'', 
     Products = [product_entry ex_pen, product_entry ex_ink]\<rparr>] \<and> 
   map CustomerID [\<lparr>ID = 1, CustomerID = 0, Date = 100, Status = ''Pending'',
     Products = [product_entry ex_pen, product_entry ex_ink]\<rparr>] = [0]"
proof -
  have e: "getCustomerOrdersWithProducts [1] ex_store 7 = Inr [\<lparr>ID = 1, CustomerID = 0, Date = 100, Status = ''Pending'', 
     Products = [product_entry ex_pen, product_entry ex_ink]\<rparr>]"
    by (simp add: getCustomerOrdersWithProducts_def query_ok_def grouping_refs_def ex_store_def
      ex_columns_def initDB_columns_def customerOrders_rows_def ex_order1_def ex_order2_def ex_order3_def
      ex_pen_def ex_ink_def scanProduct_def mapToSlice_def map_filter_simps product_entry_def)
  from C10_customer_id_zero[OF e] show ?thesis using e by simp
qed

section \<open>Orders without association rows\<close>

lemma allOrders_loop_keys:
  "allOrders_loop rows m = Inr m' \<Longrightarrow> \<forall>k v. m k = Some v \<longrightarrow> ID v = k \<and> k \<in> S \<Longrightarrow>
   \<forall>r \<in> set rows. o_id (fst r) \<in> S \<Longrightarrow> \<forall>k v. m' k = Some v \<longrightarrow> ID v = k \<and> k \<in> S"
proof (induction rows arbitrary: m)
  case Nil
  then show ?case by simp
next
  case (Cons a rows)
  obtain od p where a: "a = (od, p)" by (cases a)
  from Cons.prems(1) obtain x where x: "scanProduct p = Inr x"
    by (cases "scanProduct p") (simp_all add: a)
  from Cons.prems(3) have S: "o_id od \<in> S" and rest: "\<forall>r \<in> set rows. o_id (fst r) \<in> S"
    by (simp_all add: a)
  show ?case
  proof (cases "m (o_id od)")
    case None
    let ?m = "m(o_id od \<mapsto> \<lparr>ID = o_id od, CustomerID = o_customer_id od, Date = o_date od,
          Status = o_status od, Products = [x]\<rparr>)"
    from None Cons.prems(1) have 1: "allOrders_loop rows ?m = Inr m'"
      by (simp add: a x)
    from Cons.prems(2) S have 2: "\<forall>k v. ?m k = Some v \<longrightarrow> ID v = k \<and> k \<in> S"
      by auto
    from Cons.IH[OF 1 2 rest] show ?thesis .
  next
    case (Some order)
    let ?m = "m(o_id od \<mapsto> order\<lparr>Products := Products order @ [x]\<rparr>)"
    from Some Cons.prems(1) have 1: "allOrders_loop rows ?m = Inr m'"
      by (simp add: a x)
    from Cons.prems(2) Some S have 2: "\<forall>k v. ?m k = Some v \<longrightarrow> ID v = k \<and> k \<in> S"
      by auto
    from Cons.IH[OF 1 2 rest] show ?thesis .
  qed
qed

lemma customerOrders_loop_keys:
  "customerOrders_loop rows m = Inr m' \<Longrightarrow> \<forall>k v. m k = Some v \<longrightarrow> ID v = k \<and> k \<in> S \<Longrightarrow>
   \<forall>r \<in> set rows. o_id (fst r) \<in> S \<Longrightarrow> \<forall>k v. m' k = Some v \<longrightarrow> ID v = k \<and> k \<in> S"
proof (induction rows arbitrary: m)
  case Nil
  then show ?case by simp
next
  case (Cons a rows)
  obtain od p where a: "a = (od, p)" by (cases a)
  from Cons.prems(1) obtain x where x: "scanProduct p = Inr x"
    by (cases "scanProduct p") (simp_all add: a)
  from Cons.prems(3) have S: "o_id od \<in> S" and rest: "\<forall>r \<in> set rows. o_id (fst r) \<in> S"
    by (simp_all add: a)
  show ?case
  proof (cases "m (o_id od)")
    case None
    let ?m = "m(o_id od \<mapsto> \<lparr>ID = o_id od, CustomerID = 0, Date = o_date od,
          Status = o_status od, Products = [x]\<rparr>)"
    from None Cons.prems(1) have 1: "customerOrders_loop rows ?m = Inr m'"
      by (simp add: a x)
    from Cons.prems(2) S have 2: "\<forall>k v. ?m k = Some v \<longrightarrow> ID v = k \<and> k \<in> S"
      by auto
    from Cons.IH[OF 1 2 rest] show ?thesis .
  next
    case (Some order)
    let ?m = "m(o_id od \<mapsto> order\<lparr>Products := Products order @ [x]\<rparr>)"
    from Some Cons.prems(1) have 1: "customerOrders_loop rows ?m = Inr m'"
      by (simp add: a x)
    from Cons.prems(2) Some S have 2: "\<forall>k v. ?m k = Some v \<longrightarrow> ID v = k \<and> k \<in> S"
      by auto
    from Cons.IH[OF 1 2 rest] show ?thesis .
  qed
qed

lemma allOrders_rows_ids:
  "r \<in> set (allOrders_rows db) \<Longrightarrow> o_id (fst r) \<in> op_order_id ` set (t_order_products db)"
  by (auto simp: allOrders_rows_def)

lemma customerOrders_rows_ids:
  "r \<in> set (customerOrders_rows db c) \<Longrightarrow> o_id (fst r) \<in> op_order_id ` set (t_order_products db)"
  by (auto simp: customerOrders_rows_def)

lemma concat_map_filter_skip:
  "\<forall>x \<in> set xs. \<not> P x \<longrightarrow> f x = [] \<Longrightarrow> concat (map f (filter P xs)) = concat (map f xs)"
  by (induction xs) auto

lemma concat_map_Nil: "\<forall>x \<in> set xs. f x = [] \<Longrightarrow> concat (map f xs) = []"
  by (induction xs) auto

lemma allOrders_rows_without:
  assumes "oid \<notin> op_order_id ` set (t_order_products db)"
  shows "allOrders_rows (without_order oid db) = allOrders_rows db"
  unfolding allOrders_rows_def without_order_def
  apply (simp cong: if_cong)
  apply (rule concat_map_filter_skip)
  using assms by (auto intro!: concat_map_Nil)

lemma customerOrders_rows_without:
  assumes "oid \<notin> op_order_id ` set (t_order_products db)"
  shows "customerOrders_rows (without_order oid db) c = customerOrders_rows db c"
  unfolding customerOrders_rows_def without_order_def
  apply (simp cong: if_cong)
  apply (rule concat_map_filter_skip)
  using assms by (auto intro!: concat_map_Nil)

lemma orderDetails_rows_without:
  assumes "oid \<notin> op_order_id ` set (t_order_products db)"
  shows "orderDetails_rows (without_order oid db) k c = orderDetails_rows db k c"
  unfolding orderDetails_rows_def without_order_def
  apply (simp cong: if_cong)
  apply (rule concat_map_filter_skip)
  using assms by (auto intro!: concat_map_Nil)

lemma orderDetails_rows_none:
  assumes "oid \<notin> op_order_id ` set (t_order_products db)"
  shows "orderDetails_rows db oid c = []"
  unfolding orderDetails_rows_def
  using assms by (auto intro!: concat_map_Nil)

lemma query_ok_without: "query_ok (without_order oid db) refs = query_ok db refs"
  by (simp add: query_ok_def without_order_def)

text \<open>
  C5. An order without association rows contributes nothing to any of the three reads:
  no record of the two grouping reads bears its id, \<open>getOrderDetails\<close> for it returns
  no line item (its record is made of the arguments alone), and each read returns the
  same with the order in the store as without it.
\<close>

theorem C5_no_lines_no_entry:
  assumes "oid \<notin> op_order_id ` set (t_order_products db)"
  shows "(\<forall>result. getAllOrdersWithProducts ks db = Inr result \<longrightarrow> oid \<notin> ID ` set result) \<and>
         (\<forall>result. getCustomerOrdersWithProducts ks db customerID = Inr result \<longrightarrow>
                    oid \<notin> ID ` set result) \<and>
         (\<forall>order. getOrderDetails db oid customerID = Inr order \<longrightarrow> Products order = []) \<and>
         getAllOrdersWithProducts ks (without_order oid db) = getAllOrdersWithProducts ks db \<and>
         getCustomerOrdersWithProducts ks (without_order oid db) customerID =
           getCustomerOrdersWithProducts ks db customerID \<and>
         getOrderDetails (without_order oid db) orderID customerID =
           getOrderDetails db orderID customerID"
proof (intro conjI allI impI)
  fix result assume r: "getAllOrdersWithProducts ks db = Inr result"
  then obtain m where m: "allOrders_loop (allOrders_rows db) Map.empty = Inr m"
    and res: "result = mapToSlice ks m"
    by (auto simp: getAllOrdersWithProducts_def split: if_splits sum.splits)
  have "\<forall>k v. m k = Some v \<longrightarrow> ID v = k \<and> k \<in> op_order_id ` set (t_order_products db)"
    by (rule allOrders_loop_keys[OF m]) (simp_all add: allOrders_rows_ids)
  with res assms show "oid \<notin> ID ` set result"
    using mapToSlice_ran by fastforce
next
  fix result assume r: "getCustomerOrdersWithProducts ks db customerID = Inr result"
  then obtain m where m: "customerOrders_loop (customerOrders_rows db customerID) Map.empty = Inr m"
    and res: "result = mapToSlice ks m"
    by (auto simp: getCustomerOrdersWithProducts_def split: if_splits sum.splits)
  have "\<forall>k v. m k = Some v \<longrightarrow> ID v = k \<and> k \<in> op_order_id ` set (t_order_products db)"
    by (rule customerOrders_loop_keys[OF m]) (simp_all add: customerOrders_rows_ids)
  with res assms show "oid \<notin> ID ` set result"
    using mapToSlice_ran by fastforce
next
  fix order assume "getOrderDetails db oid customerID = Inr order"
  then show "Products order = []"
    by (auto simp: getOrderDetails_def orderDetails_rows_none[OF assms] split: if_splits)
next
  show "getAllOrdersWithProducts ks (without_order oid db) = getAllOrdersWithProducts ks db"
    by (simp add: getAllOrdersWithProducts_def query_ok_without allOrders_rows_without[OF assms])
  show "getCustomerOrdersWithProducts ks (without_order oid db) customerID =
           getCustomerOrdersWithProducts ks db customerID"
    by (simp add: getCustomerOrdersWithProducts_def query_ok_without
        customerOrders_rows_without[OF assms])
  show "getOrderDetails (without_order oid db) orderID customerID =
           getOrderDetails db orderID customerID"
    by (simp add: getOrderDetails_def query_ok_without orderDetails_rows_without[OF assms])
qed

section \<open>Ownership in getOrderDetails\<close>

lemma orderDetails_loop_inv:
  "orderDetails_loop rows order = Inr order' \<Longrightarrow>
   \<forall>r \<in> set rows. o_id (fst r) = oid \<and> o_customer_id (fst r) = cid \<Longrightarrow>
   ID order = oid \<and> CustomerID order = cid \<Longrightarrow>
   ID order' = oid \<and> CustomerID order' = cid \<and>
   (\<forall>product \<in> set (Products order'). product \<in> set (Products order) \<or>
      (\<exists>od lk p. (od, lk, p) \<in> set rows \<and> op_quantity lk = Some (Quantity product) \<and>
         ID_prod product = p_id p \<and> Name product = p_name p \<and> Price product = p_price p))"
proof (induction rows arbitrary: order)
  case Nil
  then show ?case by simp
next
  case (Cons a rows)
  obtain od lk p where a: "a = (od, lk, p)" by (cases a)
  from Cons.prems(1) obtain q where q: "op_quantity lk = Some q"
    by (cases "op_quantity lk") (simp_all add: a)
  let ?order = "order\<lparr>ID := o_id od, CustomerID := o_customer_id od, Date := o_date od,
                   Status := o_status od,
                   Products := Products order @
                     [\<lparr>ID_prod = p_id p, Name = p_name p, Price = p_price p,
                       Description = [], ImageURL = [], Quantity = q\<rparr>]\<rparr>"
  from Cons.prems(1) have 1: "orderDetails_loop rows ?order = Inr order'"
    by (simp add: a q)
  from Cons.prems(2) have 2: "\<forall>r \<in> set rows. o_id (fst r) = oid \<and> o_customer_id (fst r) = cid"
    and h: "o_id od = oid" "o_customer_id od = cid"
    by (simp_all add: a)
  from h have 3: "ID ?order = oid \<and> CustomerID ?order = cid" by simp
  from Cons.IH[OF 1 2 3] show ?case
    by (simp add: a) (use q in fastforce)
qed

lemma orderDetails_rows_mem:
  "(od, lk, p) \<in> set (orderDetails_rows db orderID customerID) \<Longrightarrow>
   od \<in> set (t_orders db) \<and> lk \<in> set (t_order_products db) \<and> p \<in> set (t_products db) \<and>
   o_id od = orderID \<and> o_customer_id od = customerID \<and> op_order_id lk = orderID \<and>
   op_product_id lk = p_id p"
  by (auto simp: orderDetails_rows_def split: if_splits)

lemma orderDetails_rows_other_owner:
  assumes "\<forall>od \<in> set (t_orders db). o_id od = orderID \<longrightarrow> o_customer_id od \<noteq> customerID"
  shows "orderDetails_rows db orderID customerID = []"
proof (cases "orderDetails_rows db orderID customerID")
  case Nil then show ?thesis .
next
  case (Cons r rs)
  obtain od lk p where "r = (od, lk, p)" by (cases r)
  with Cons have "(od, lk, p) \<in> set (orderDetails_rows db orderID customerID)" by simp
  from orderDetails_rows_mem[OF this] assms show ?thesis by blast
qed

text \<open>
  C6. When every order with the id \<open>orderID\<close> belongs to another customer,
  \<open>getOrderDetails orderID customerID\<close> returns an error or the empty record. In every
  store, the record it returns bears the two arguments as its ids, and each of its
  products is a line item of an order with that id that \<open>customerID\<close> owns.
\<close>

theorem C6_ownership_isolation:
  "((\<forall>od \<in> set (t_orders db). o_id od = orderID \<longrightarrow> o_customer_id od \<noteq> customerID) \<longrightarrow>
      getOrderDetails db orderID customerID = Inl QueryError \<or>
      getOrderDetails db orderID customerID = Inr (placeholder orderID customerID)) \<and>
   (\<forall>order. getOrderDetails db orderID customerID = Inr order \<longrightarrow>
      ID order = orderID \<and> CustomerID order = customerID \<and>
      (\<forall>product \<in> set (Products order). line_item_of db orderID customerID product))"
proof (intro conjI allI impI)
  assume "\<forall>od \<in> set (t_orders db). o_id od = orderID \<longrightarrow> o_customer_id od \<noteq> customerID"
  from orderDetails_rows_other_owner[OF this]
  show "getOrderDetails db orderID customerID = Inl QueryError \<or>
      getOrderDetails db orderID customerID = Inr (placeholder orderID customerID)"
    by (simp add: getOrderDetails_def placeholder_def)
next
  fix order assume "getOrderDetails db orderID customerID = Inr order"
  then have l: "orderDetails_loop (orderDetails_rows db orderID customerID)
       \<lparr>ID = orderID, CustomerID = customerID, Date = 0, Status = [], Products = []\<rparr> = Inr order"
    by (simp add: getOrderDetails_def split: if_splits)
  have "ID order = orderID \<and> CustomerID order = customerID \<and>
   (\<forall>product \<in> set (Products order). product \<in> set (Products \<lparr>ID = orderID, CustomerID = customerID, Date = 0, Status = [], Products = []\<rparr>) \<or>
      (\<exists>od lk p. (od, lk, p) \<in> set (orderDetails_rows db orderID customerID) \<and> op_quantity lk = Some (Quantity product) \<and>
         ID_prod product = p_id p \<and> Name product = p_name p \<and> Price product = p_price p))"
    by (rule orderDetails_loop_inv[OF l]) (auto dest: orderDetails_rows_mem)
  then show "ID order = orderID" "CustomerID order = customerID"
    "\<forall>product \<in> set (Products order). line_item_of db orderID customerID product"
    unfolding line_item_of_def by (simp, simp, (fastforce dest: orderDetails_rows_mem))
qed

section \<open>The handlers\<close>

lemma digits_value_None:
  "\<not> list_all (\<lambda>c. digit c \<noteq> None) ds \<Longrightarrow> digits_value ds acc = None"
  by (induction ds arbitrary: acc) (auto split: option.splits)

lemma Atoi_not_decimal: "\<not> decimal_integer s \<Longrightarrow> Atoi s = Inl SyntaxError"
  by (auto simp: decimal_integer_def Atoi_def digits_value_None split: prod.splits)

lemma Atoi_zero: "Atoi ''0'' = Inr 0"
  by (simp add: Atoi_def strip_sign_def digit_def)

lemma getCustomerID_bad:
  assumes "Header r ''X-Customer-ID'' = None \<or> \<not> decimal_integer (Header_Get r ''X-Customer-ID'')"
  shows "getCustomerID r = 0"
proof -
  have "\<not> decimal_integer []" by (simp add: decimal_integer_def strip_sign_def)
  with assms have "\<not> decimal_integer (Header_Get r ''X-Customer-ID'')"
    by (auto simp: Header_Get_def)
  then show ?thesis by (simp add: getCustomerID_def Atoi_not_decimal)
qed

lemma getCustomerID_zero: "getCustomerID (with_header ''X-Customer-ID'' ''0'' r) = 0"
  by (simp add: getCustomerID_def with_header_def Header_Get_def Atoi_zero)

lemma rw_status_Write_WriteHeader:
  "rw_status w = None \<Longrightarrow> rw_status (Write b (WriteHeader c w)) = Some c"
  by (simp add: Write_def WriteHeader_def)

lemma rw_body_Write_WriteHeader:
  "rw_body (Write b (WriteHeader c w)) = rw_body w @ b"
  by (simp add: Write_def WriteHeader_def split: option.splits)

lemma rw_status_Header_Set: "rw_status (Header_Set k v w) = rw_status w"
  by (simp add: Header_Set_def)

lemma rw_body_Header_Set: "rw_body (Header_Set k v w) = rw_body w"
  by (simp add: Header_Set_def)

text \<open>
  C9. When the header \<open>X-Customer-ID\<close> is missing or is not a decimal integer,
  \<open>getCustomerID\<close> is 0 and \<open>CustomerOrdersHandler\<close> answers as it does for the header
  value \<open>0\<close>: with status 200 and the encoded orders of customer 0 when the read and the
  encoding succeed, and never with a status other than 200 or 500.
\<close>

theorem C9_bad_customer_header:
  assumes "Header r ''X-Customer-ID'' = None \<or>
           \<not> decimal_integer (Header_Get r ''X-Customer-ID'')"
  shows "getCustomerID r = 0 \<and>
         CustomerOrdersHandler marshal ks r (s, w) =
           CustomerOrdersHandler marshal ks (with_header ''X-Customer-ID'' ''0'' r) (s, w) \<and>
         (\<forall>orders response.
            getCustomerOrdersWithProducts ks (w_db s) 0 = Inr orders \<and>
            marshal orders = Inr response \<and> rw_status w = None \<longrightarrow>
            rw_status (snd (CustomerOrdersHandler marshal ks r (s, w))) = Some StatusOK \<and>
            rw_body (snd (CustomerOrdersHandler marshal ks r (s, w))) = rw_body w @ response) \<and>
         (rw_status w = None \<longrightarrow>
            rw_status (snd (CustomerOrdersHandler marshal ks r (s, w)))
              \<in> {Some StatusOK, Some StatusInternalServerError})"
proof -
  have z: "getCustomerID r = 0" using assms by (rule getCustomerID_bad)
  have 1: "CustomerOrdersHandler marshal ks r (s, w) =
           CustomerOrdersHandler marshal ks (with_header ''X-Customer-ID'' ''0'' r) (s, w)"
    by (simp add: CustomerOrdersHandler_def z getCustomerID_zero)
  have 2: "rw_status (snd (CustomerOrdersHandler marshal ks r (s, w))) = Some StatusOK \<and>
            rw_body (snd (CustomerOrdersHandler marshal ks r (s, w))) = rw_body w @ response"
    if "getCustomerOrdersWithProducts ks (w_db s) 0 = Inr orders \<and>
            marshal orders = Inr response \<and> rw_status w = None" for orders response
    using that
    by (simp add: CustomerOrdersHandler_def z rw_status_Write_WriteHeader
        rw_body_Write_WriteHeader rw_status_Header_Set rw_body_Header_Set)
  have 3: "rw_status (snd (CustomerOrdersHandler marshal ks r (s, w)))
              \<in> {Some StatusOK, Some StatusInternalServerError}" if "rw_status w = None"
    using that
    by (simp add: CustomerOrdersHandler_def Let_def rw_status_Write_WriteHeader
        rw_status_Header_Set split: sum.splits)
  from z 1 2 3 show ?thesis by blast
qed

text \<open>
  C3. A decoded order request with a customer id that is not positive (a missing one
  decodes to 0), with no product, or with a quantity that is not positive: the handler
  answers 400 with the validation error, the store is as before, and neither
  \<open>createOrder\<close> nor \<open>associateProducts\<close> has any influence on the outcome.
\<close>

theorem C3_validation_rejects:
  assumes "Body r = Inr body" and "unmarshal body = Inr req"
    and "CustomerID_req req \<le> 0 \<or> Products_req req = [] \<or>
         (\<exists>i \<in> set (Products_req req). Quantity_item i \<le> 0)"
  shows "PlaceOrderHandler errText unmarshal createOrder associateProducts r (s, w) =
           (log_Println ''Validation error:'' ValidationFailure s,
            Write (''Validation error: '' @ errText ValidationFailure)
              (WriteHeader StatusBadRequest w)) \<and>
         w_db (fst (PlaceOrderHandler errText unmarshal createOrder associateProducts r (s, w)))
           = w_db s \<and>
         (rw_status w = None \<longrightarrow>
            rw_status (snd (PlaceOrderHandler errText unmarshal createOrder associateProducts r (s, w)))
              = Some StatusBadRequest)"
proof -
  from assms(3) have v: "validateOrderRequest req = Some ValidationFailure"
    by (auto simp: validateOrderRequest_def list_ex_iff)
  have 1: "PlaceOrderHandler errText unmarshal createOrder associateProducts r (s, w) =
           (log_Println ''Validation error:'' ValidationFailure s,
            Write (''Validation error: '' @ errText ValidationFailure)
              (WriteHeader StatusBadRequest w))"
    by (simp add: PlaceOrderHandler_def assms(1,2) v)
  show ?thesis
    by (simp add: 1 log_Println_def rw_status_Write_WriteHeader)
qed

text \<open>
  C4. \<open>AuthMiddleware\<close> compares the \<open>Authorization\<close> header with the token of the
  route's role. On a mismatch it answers 401 and leaves the state as it is, whatever the
  wrapped handler is; a missing header and the token of the other role are mismatches.
  A role other than \<open>customer\<close> and \<open>admin\<close> is answered with 500. On a match the
  result is that of the wrapped handler on the same request and state.
\<close>

theorem C4_access_control:
  "(role = ''customer'' \<and> Header_Get r ''Authorization'' \<noteq> customerToken \<or>
    role = ''admin'' \<and> Header_Get r ''Authorization'' \<noteq> adminToken \<longrightarrow>
      AuthMiddleware next role r (s, w) =
        (s, Write ''Unauthorized'' (WriteHeader StatusUnauthorized w))) \<and>
   (Header r ''Authorization'' = None \<and> (role = ''customer'' \<or> role = ''admin'') \<longrightarrow>
      AuthMiddleware next role r (s, w) =
        (s, Write ''Unauthorized'' (WriteHeader StatusUnauthorized w))) \<and>
   (Header r ''Authorization'' = Some adminToken \<longrightarrow>
      AuthMiddleware next ''customer'' r (s, w) =
        (s, Write ''Unauthorized'' (WriteHeader StatusUnauthorized w))) \<and>
   (Header r ''Authorization'' = Some customerToken \<longrightarrow>
      AuthMiddleware next ''admin'' r (s, w) =
        (s, Write ''Unauthorized'' (WriteHeader StatusUnauthorized w))) \<and>
   (role \<noteq> ''customer'' \<and> role \<noteq> ''admin'' \<longrightarrow>
      AuthMiddleware next role r (s, w) =
        (s, Write ''Internal Server Error'' (WriteHeader StatusInternalServerError w))) \<and>
   (role = ''customer'' \<and> Header_Get r ''Authorization'' = customerToken \<or>
    role = ''admin'' \<and> Header_Get r ''Authorization'' = adminToken \<longrightarrow>
      AuthMiddleware next role r (s, w) = next r (s, w)) \<and>
   (rw_status w = None \<longrightarrow>
      rw_status (Write ''Unauthorized'' (WriteHeader StatusUnauthorized w)) = Some 401 \<and>
      rw_status (Write ''Internal Server Error'' (WriteHeader StatusInternalServerError w))
        = Some 500)"
  by (auto simp: AuthMiddleware_def Header_Get_def customerToken_def adminToken_def
      rw_status_Write_WriteHeader StatusUnauthorized_def StatusInternalServerError_def)

section \<open>The products of a grouped order\<close>

text \<open>
  A grouping loop returns a map only when every row scans. The products of a record of
  \<open>getAllOrdersWithProducts\<close> are then the association rows of its order, each joined
  with the product it names.
\<close>

lemma allOrders_loop_scans:
  "allOrders_loop rows m = Inr m' \<Longrightarrow> list_all (\<lambda>r. scans (snd r)) rows"
proof (induction rows arbitrary: m)
  case Nil
  show ?case by simp
next
  case (Cons a rows)
  obtain od p where a: "a = (od, p)" by (cases a)
  from Cons.prems have s: "scans p"
    using scanProduct_fails[of p] by (cases "scans p") (simp_all add: a)
  with Cons.prems have "\<exists>m''. allOrders_loop rows m'' = Inr m'"
    by (cases "m (o_id od)") (auto simp: a scanProduct_scans)
  with Cons.IH s show ?case by (auto simp: a)
qed

lemma customerOrders_loop_scans:
  "customerOrders_loop rows m = Inr m' \<Longrightarrow> list_all (\<lambda>r. scans (snd r)) rows"
proof (induction rows arbitrary: m)
  case Nil
  show ?case by simp
next
  case (Cons a rows)
  obtain od p where a: "a = (od, p)" by (cases a)
  from Cons.prems have s: "scans p"
    using scanProduct_fails[of p] by (cases "scans p") (simp_all add: a)
  with Cons.prems have "\<exists>m''. customerOrders_loop rows m'' = Inr m'"
    by (cases "m (o_id od)") (auto simp: a scanProduct_scans)
  with Cons.IH s show ?case by (auto simp: a)
qed

lemma allOrders_loop_aborts:
  "\<not> list_all (\<lambda>r. scans (snd r)) rows \<Longrightarrow> \<exists>e. allOrders_loop rows m = Inl e"
  using allOrders_loop_scans[of rows m] by (cases "allOrders_loop rows m") auto

lemma customerOrders_loop_aborts:
  "\<not> list_all (\<lambda>r. scans (snd r)) rows \<Longrightarrow> \<exists>e. customerOrders_loop rows m = Inl e"
  using customerOrders_loop_scans[of rows m] by (cases "customerOrders_loop rows m") auto

lemma allOrders_rows_of_set:
  assumes "rows_of k (allOrders_rows db) \<noteq> []"
  shows "(\<lambda>r. product_entry (snd r)) ` set (rows_of k (allOrders_rows db)) =
         {product_entry p | lk p. lk \<in> set (t_order_products db) \<and> op_order_id lk = k \<and>
            p \<in> set (t_products db) \<and> p_id p = op_product_id lk}"
proof -
  from assms obtain r where "r \<in> set (allOrders_rows db)" "o_id (fst r) = k"
    by (auto simp: rows_of_def filter_empty_conv)
  then obtain od0 p0 where "(od0, p0) \<in> set (allOrders_rows db)" "o_id od0 = k"
    by (metis prod.collapse)
  then have od0: "od0 \<in> set (t_orders db)" "o_id od0 = k"
    by (auto simp: allOrders_rows_def split: if_splits)
  show ?thesis
  proof (intro set_eqI iffI)
    fix x assume "x \<in> (\<lambda>r. product_entry (snd r)) ` set (rows_of k (allOrders_rows db))"
    then show "x \<in> {product_entry p | lk p. lk \<in> set (t_order_products db) \<and> op_order_id lk = k \<and>
            p \<in> set (t_products db) \<and> p_id p = op_product_id lk}"
      by (auto simp: rows_of_def allOrders_rows_def split: if_splits) metis
  next
    fix x assume "x \<in> {product_entry p | lk p. lk \<in> set (t_order_products db) \<and> op_order_id lk = k \<and>
            p \<in> set (t_products db) \<and> p_id p = op_product_id lk}"
    then obtain lk p where x: "x = product_entry p" and lk: "lk \<in> set (t_order_products db)"
      "op_order_id lk = k" and p: "p \<in> set (t_products db)" "p_id p = op_product_id lk"
      by blast
    with od0 have "(od0, p) \<in> set (rows_of k (allOrders_rows db))"
      by (force simp: rows_of_def allOrders_rows_def)
    with x show "x \<in> (\<lambda>r. product_entry (snd r)) ` set (rows_of k (allOrders_rows db))"
      by force
  qed
qed

lemma allOrders_products_are_the_association_rows:
  assumes "getAllOrdersWithProducts ks db = Inr result" and "order \<in> set result"
  shows "set (Products order) =
         {product_entry p | lk p. lk \<in> set (t_order_products db) \<and> op_order_id lk = ID order \<and>
            p \<in> set (t_products db) \<and> p_id p = op_product_id lk}"
proof -
  from assms(1) obtain m where m: "allOrders_loop (allOrders_rows db) Map.empty = Inr m"
    and res: "result = mapToSlice ks m"
    by (auto simp: getAllOrdersWithProducts_def split: if_splits sum.splits)
  from allOrders_loop_scans[OF m] have "allOrders_loop (allOrders_rows db) Map.empty =
      Inr (allOrders_grouped (allOrders_rows db))"
    by (rule allOrders_loop_grouped)
  with m have mg: "m = allOrders_grouped (allOrders_rows db)" by simp
  from assms(2) res obtain k where k: "m k = Some order" using mapToSlice_ran by blast
  then have ne: "rows_of k (allOrders_rows db) \<noteq> []"
    and pr: "Products order = map (\<lambda>r. product_entry (snd r)) (rows_of k (allOrders_rows db))"
    and id: "ID order = k"
    by (auto simp: mg allOrders_grouped_def split: list.splits)
  from allOrders_rows_of_set[OF ne] pr id show ?thesis by simp
qed

section \<open>The sweep over the pending orders\<close>

text \<open>
  When its query succeeds, the sweep calls the mail transport once for every pending order
  whose address scans, in the order of the rows and whatever the transport returns; when
  the query fails, it logs the error and does nothing else.
\<close>

lemma SendEmailReminder_dispatched:
  "w_dispatched (SendEmailReminder sendMail to orderID s) = w_dispatched s @ [(to, orderID)]"
  by (simp add: SendEmailReminder_def Let_def split: option.splits)

lemma pendingOrders_loop_dispatched:
  "w_dispatched (pendingOrders_loop sendMail rows s) =
     w_dispatched s @
       List.map_filter (\<lambda>od. map_option (\<lambda>e. (e, o_id od)) (o_customer_email od)) rows"
proof (induction rows arbitrary: s)
  case Nil
  show ?case by (simp add: map_filter_simps)
next
  case (Cons od rows)
  show ?case
    by (cases "o_customer_email od")
       (simp_all add: Cons.IH map_filter_simps SendEmailReminder_dispatched log_Println_def)
qed

lemma sweep_dispatches_whatever_the_transport_returns:
  assumes "query_ok (w_db s) pendingOrders_refs"
  shows "w_dispatched (SendPendingOrderReminders sendMail s) =
     w_dispatched s @
       List.map_filter (\<lambda>od. map_option (\<lambda>e. (e, o_id od)) (o_customer_email od))
         (pendingOrders_rows (w_db s))"
  using assms by (simp add: SendPendingOrderReminders_def pendingOrders_loop_dispatched)

lemma sweep_aborts_when_the_query_fails:
  assumes "\<not> query_ok (w_db s) pendingOrders_refs"
  shows "SendPendingOrderReminders sendMail s =
           log_Println ''Error querying pending orders:'' QueryError s"
  using assms by (simp add: SendPendingOrderReminders_def)

section \<open>The properties at the example store\<close>

lemmas ex_defs = ex_store_def ex_columns_def initDB_columns_def ex_order1_def ex_order2_def
  ex_order3_def ex_pen_def ex_ink_def

lemma ex_query_ok: "query_ok ex_store grouping_refs" "query_ok ex_store orderDetails_refs"
  "query_ok ex_store pendingOrders_refs"
  by (simp_all add: query_ok_def grouping_refs_def orderDetails_refs_def pendingOrders_refs_def
      ex_store_def ex_columns_def initDB_columns_def)

lemma sweep_at_ex_store:
  "w_dispatched (SendPendingOrderReminders (\<lambda>to orderID. Some (OtherError ''connection refused'')) ex_world)
     = [(''ann@example.org'', 1)]"
  by (simp add: sweep_dispatches_whatever_the_transport_returns ex_world_def
      query_ok_def pendingOrders_refs_def ex_store_def ex_columns_def initDB_columns_def
      pendingOrders_rows_def ex_order1_def ex_order2_def ex_order3_def map_filter_simps)

lemma ex_all: "getAllOrdersWithProducts [1, 2] ex_store =
     Inr [\<lparr>ID = 1, CustomerID = 7, Date = 100, Status = ''Pending'',
           Products = [product_entry ex_pen, product_entry ex_ink]\<rparr>,
          \<lparr>ID = 2, CustomerID = 8, Date = 200, Status = ''Shipped'',
           Products = [product_entry ex_pen]\<rparr>]"
  by (simp add: getAllOrdersWithProducts_def ex_query_ok)
     (simp add: allOrders_rows_def ex_defs scanProduct_def mapToSlice_def map_filter_simps
        product_entry_def)

lemma ex_details_3: "getOrderDetails ex_store 3 7 = Inr (placeholder 3 7)"
  by (simp add: getOrderDetails_def ex_query_ok)
     (simp add: orderDetails_rows_def ex_defs placeholder_def)

lemma ex_details_18: "getOrderDetails ex_store 1 8 = Inr (placeholder 1 8)"
  by (simp add: getOrderDetails_def ex_query_ok)
     (simp add: orderDetails_rows_def ex_defs placeholder_def)

lemma ex_details_17: "getOrderDetails ex_store 1 7 =
    Inr \<lparr>ID = 1, CustomerID = 7, Date = 100, Status = ''Pending'',
         Products = [\<lparr>ID_prod = 3, Name = ''pen'', Price = 2, Description = [],
                      ImageURL = [], Quantity = 2\<rparr>,
                     \<lparr>ID_prod = 5, Name = ''ink'', Price = 7, Description = [],
                      ImageURL = [], Quantity = 1\<rparr>]\<rparr>"
  by (simp add: getOrderDetails_def ex_query_ok)
     (simp add: orderDetails_rows_def ex_defs)

theorem C5_no_lines_no_entry_witness:
  "3 \<notin> op_order_id ` set (t_order_products ex_store) \<and>
   3 \<in> o_id ` set (t_orders ex_store) \<and>
   3 \<notin> ID ` set (projr (getAllOrdersWithProducts [1, 2] ex_store)) \<and>
   Products (projr (getOrderDetails ex_store 3 7)) = [] \<and>
   getAllOrdersWithProducts [1, 2] (without_order 3 ex_store) =
     getAllOrdersWithProducts [1, 2] ex_store"
proof -
  have h: "3 \<notin> op_order_id ` set (t_order_products ex_store)"
    by (simp add: ex_store_def)
  have o: "3 \<in> o_id ` set (t_orders ex_store)"
    by (simp add: ex_store_def ex_order3_def)
  from C5_no_lines_no_entry[OF h, of "[1, 2]" 7 3] h o show ?thesis
    by (simp add: ex_all ex_details_3)
qed

theorem C6_ownership_isolation_witness:
  "list_all (\<lambda>od. o_id od \<noteq> 1 \<or> o_customer_id od \<noteq> 8) (t_orders ex_store) \<and>
   getOrderDetails ex_store 1 8 = Inr (placeholder 1 8) \<and>
   list_all (line_item_of ex_store 1 7) (Products (projr (getOrderDetails ex_store 1 7)))"
proof -
  have h: "\<forall>od \<in> set (t_orders ex_store). o_id od = 1 \<longrightarrow> o_customer_id od \<noteq> 8"
    by (simp add: ex_store_def ex_order1_def ex_order2_def ex_order3_def)
  from C6_ownership_isolation[of ex_store 1 8] C6_ownership_isolation[of ex_store 1 7] h
  show ?thesis
    by (simp add: ex_details_18 ex_details_17 list_all_iff)
qed

text \<open>
  C7. In a database whose tables \<open>initDB\<close> has created, \<open>order_products\<close> has the two
  key columns and no quantity, and \<open>getOrderDetails\<close>, which selects \<open>op.quantity\<close>,
  fails.
\<close>

theorem C7_no_quantity_column:
  "columns ex_store_initDB ''order_products'' = [''order_id'', ''product_id''] \<and>
   getOrderDetails ex_store_initDB 1 7 = Inl QueryError"
  by (simp add: ex_store_initDB_def initDB_def empty_store_def initDB_columns_def
      getOrderDetails_def query_ok_def orderDetails_refs_def)

text \<open>
  C8. In a database whose tables \<open>initDB\<close> has created, with two pending orders: the
  cycle obtains the permit, the statement of the sweep names the column
  \<open>customer_email\<close>, which \<open>orders\<close> does not have, and the sweep ends with the query
  error logged and no call of the mail transport.
\<close>

theorem C8_sweep_sends_nothing:
  "map o_id (pendingOrders_rows ex_store_initDB) = [1, 3] \<and>
   columns ex_store_initDB ''orders'' = [''id'', ''customer_id'', ''date'', ''status''] \<and>
   BackgroundTask_cycle (\<lambda>to orderID. None) 1000 (taskLimiter, ex_world\<lparr>w_db := ex_store_initDB\<rparr>) =
     (UntilNextMidnight,
      taskLimiter\<lparr>tokens := 86399, last_t := 1000\<rparr>,
      ex_world\<lparr>w_db := ex_store_initDB,
               w_logs := [Println ''Error querying pending orders:'' QueryError],
               w_dispatched := []\<rparr>)"
  apply (intro conjI)
    apply (simp add: pendingOrders_rows_def ex_store_initDB_def ex_order1_def ex_order2_def ex_order3_def)
   apply (simp add: ex_store_initDB_def initDB_def empty_store_def initDB_columns_def)
  apply (simp add: BackgroundTask_cycle_def taskLimiter_def NewRateLimiter_def NewLimiter_def
      Seconds_int_def Hour_def Minute_def Second_def Allow_def advance_def
      tokensFromDuration_def waitDuration_def Let_def
      SendPendingOrderReminders_def query_ok_def pendingOrders_refs_def
      ex_store_initDB_def initDB_def empty_store_def initDB_columns_def ex_world_def
      log_Println_def)
  done

text \<open>
  C2. \<open>NewRateLimiter limit window\<close> makes a bucket of as many tokens as the window has
  seconds, refilled with \<open>limit\<close> tokens per second. The limiter of the background task
  (limit 1, window 24 hours) grants two calls at one instant; a limiter with limit 100
  and a window of two seconds grants two calls at one instant and refuses the third,
  also under another key.
\<close>

theorem C2_bucket_is_window_seconds:
  "limit taskLimiter = 1 \<and> burst taskLimiter = 86400 \<and>
   fst (allow_times 2 taskLimiter ''background-task'' 1000) = [True, True] \<and>
   limit rateLimiter = 100 \<and> burst rateLimiter = 60 \<and>
   fst (allow_times 3 (NewRateLimiter 100 (2 * Second)) ''10.0.0.1:5000'' 1000)
     = [True, True, False] \<and>
   fst (Allow (snd (allow_times 2 (NewRateLimiter 100 (2 * Second)) ''10.0.0.1:5000'' 1000))
          ''10.0.0.2:5000'' 1000) = False"
  by code_simp

lemma ex_customer_0: "getCustomerOrdersWithProducts [] ex_store 0 = Inr []"
  by (simp add: getCustomerOrdersWithProducts_def ex_query_ok)
     (simp add: customerOrders_rows_def ex_defs mapToSlice_def map_filter_simps)

theorem C9_bad_customer_header_witness:
  "Header ex_request ''X-Customer-ID'' = None \<and>
   \<not> decimal_integer (Header_Get (with_header ''X-Customer-ID'' ''7a'' ex_request) ''X-Customer-ID'') \<and>
   getCustomerID (with_header ''X-Customer-ID'' ''7a'' ex_request) = 0 \<and>
   CustomerOrdersHandler ex_marshal [] ex_request (ex_world, fresh_writer) =
     (ex_world, \<lparr>rw_status = Some 200, rw_header = [(''Content-Type'', ''application/json'')],
                 rw_body = ''null''\<rparr>)"
proof -
  have h: "Header ex_request ''X-Customer-ID'' = None" by (simp add: ex_request_def)
  have g: "Header_Get (with_header ''X-Customer-ID'' ''7a'' ex_request) ''X-Customer-ID'' = ''7a''"
    by (simp add: Header_Get_def with_header_def)
  have d: "\<not> decimal_integer ''7a''"
    by (simp add: decimal_integer_def strip_sign_def digit_def)
  have z: "getCustomerID ex_request = 0"
    using C9_bad_customer_header[of ex_request] h by simp
  have z': "getCustomerID (with_header ''X-Customer-ID'' ''7a'' ex_request) = 0"
    using C9_bad_customer_header[of "with_header ''X-Customer-ID'' ''7a'' ex_request"] g d by simp
  have "CustomerOrdersHandler ex_marshal [] ex_request (ex_world, fresh_writer) =
     (ex_world, \<lparr>rw_status = Some 200, rw_header = [(''Content-Type'', ''application/json'')],
                 rw_body = ''null''\<rparr>)"
    by (simp add: CustomerOrdersHandler_def z)
       (simp add: ex_world_def ex_customer_0 ex_marshal_def fresh_writer_def Write_def
          WriteHeader_def Header_Set_def StatusOK_def)
  with h g d z' show ?thesis by simp
qed

theorem C3_validation_rejects_witness:
  "Body ex_request = Inr ''{}'' \<and> ex_unmarshal ''{}'' = Inr \<lparr>CustomerID_req = 0, Products_req = []\<rparr> \<and>
   PlaceOrderHandler (\<lambda>e. ''invalid order'') ex_unmarshal ex_createOrder ex_associateProducts
       ex_request (ex_world, fresh_writer) =
     (ex_world\<lparr>w_logs := [Println ''Validation error:'' ValidationFailure]\<rparr>,
      \<lparr>rw_status = Some 400, rw_header = [], rw_body = ''Validation error: invalid order''\<rparr>)"
proof -
  have b: "Body ex_request = Inr ''{}''" by (simp add: ex_request_def)
  have u: "ex_unmarshal ''{}'' = Inr \<lparr>CustomerID_req = 0, Products_req = []\<rparr>"
    by (simp add: ex_unmarshal_def)
  have v: "CustomerID_req \<lparr>CustomerID_req = 0, Products_req = []\<rparr> \<le> 0 \<or>
           Products_req \<lparr>CustomerID_req = 0, Products_req = []\<rparr> = [] \<or>
           (\<exists>i \<in> set (Products_req \<lparr>CustomerID_req = 0, Products_req = []\<rparr>). Quantity_item i \<le> 0)"
    by simp
  have "PlaceOrderHandler (\<lambda>e. ''invalid order'') ex_unmarshal ex_createOrder
           ex_associateProducts ex_request (ex_world, fresh_writer) =
         (log_Println ''Validation error:'' ValidationFailure ex_world,
          Write (''Validation error: '' @ ''invalid order'')
            (WriteHeader StatusBadRequest fresh_writer))"
    using C3_validation_rejects[where r = ex_request and unmarshal = ex_unmarshal
        and errText = "\<lambda>e. ''invalid order''" and createOrder = ex_createOrder
        and associateProducts = ex_associateProducts and s = ex_world and w = fresh_writer,
        OF b u v]
    by simp
  with b u show ?thesis
    by (simp add: log_Println_def ex_world_def fresh_writer_def Write_def WriteHeader_def
        StatusBadRequest_def)
qed

theorem C4_access_control_witness:
  "AuthMiddleware ex_next ''customer'' ex_request (ex_world, fresh_writer) =
     (ex_world, \<lparr>rw_status = Some 401, rw_header = [], rw_body = ''Unauthorized''\<rparr>) \<and>
   AuthMiddleware ex_next ''customer'' (with_header ''Authorization'' ''admin_token'' ex_request)
       (ex_world, fresh_writer) =
     (ex_world, \<lparr>rw_status = Some 401, rw_header = [], rw_body = ''Unauthorized''\<rparr>) \<and>
   AuthMiddleware ex_next ''manager'' (with_header ''Authorization'' ''admin_token'' ex_request)
       (ex_world, fresh_writer) =
     (ex_world, \<lparr>rw_status = Some 500, rw_header = [], rw_body = ''Internal Server Error''\<rparr>) \<and>
   AuthMiddleware ex_next ''admin'' (with_header ''Authorization'' ''admin_token'' ex_request)
       (ex_world, fresh_writer) =
     (ex_world, \<lparr>rw_status = Some 200, rw_header = [], rw_body = ''ok''\<rparr>)"
proof -
  let ?r = "with_header ''Authorization'' ''admin_token'' ex_request"
  have h0: "Header ex_request ''Authorization'' = None" by (simp add: ex_request_def)
  have h1: "Header ?r ''Authorization'' = Some adminToken"
    by (simp add: with_header_def adminToken_def)
  have g1: "Header_Get ?r ''Authorization'' = adminToken"
    by (simp add: Header_Get_def h1)
  have w: "rw_status fresh_writer = None" by (simp add: fresh_writer_def)
  have 1: "AuthMiddleware ex_next ''customer'' ex_request (ex_world, fresh_writer) =
     (ex_world, Write ''Unauthorized'' (WriteHeader StatusUnauthorized fresh_writer))"
    using C4_access_control[of "''customer''" ex_request ex_next ex_world fresh_writer] h0
    by simp
  have 2: "AuthMiddleware ex_next ''customer'' ?r (ex_world, fresh_writer) =
     (ex_world, Write ''Unauthorized'' (WriteHeader StatusUnauthorized fresh_writer))"
    using C4_access_control[of "''customer''" ?r ex_next ex_world fresh_writer] h1
    by simp
  have 3: "AuthMiddleware ex_next ''manager'' ?r (ex_world, fresh_writer) =
     (ex_world, Write ''Internal Server Error'' (WriteHeader StatusInternalServerError fresh_writer))"
    using C4_access_control[of "''manager''" ?r ex_next ex_world fresh_writer]
    by simp
  have 4: "AuthMiddleware ex_next ''admin'' ?r (ex_world, fresh_writer) = ex_next ?r (ex_world, fresh_writer)"
    using C4_access_control[of "''admin''" ?r ex_next ex_world fresh_writer] g1
    by simp
  show ?thesis
    unfolding 1 2 3 4
    by (simp add: ex_next_def fresh_writer_def Write_def WriteHeader_def
        StatusUnauthorized_def StatusInternalServerError_def StatusOK_def)
qed

end
